theory Spec2Isabelle
  imports Complex_Main
begin

section \<open>Python values\<close>

text \<open>
  A Python \<open>str\<close> is a sequence of Unicode code points, so it is modelled as the list of
  the integers that \<open>ord\<close> gives for its characters; \<open>len\<close> is \<open>length\<close>. Python floats are
  modelled as real numbers: the thresholds and products of the services are computed
  exactly, and the rounding of IEEE doubles is not part of the model.
\<close>

type_synonym pystr = "int list"

text \<open>
  The Unicode tables that CPython consults (\<open>str.lower\<close>, \<open>str.upper\<close>, the class
  \<open>\w\<close> of the \<open>re\<close> module and its case-insensitive comparison of a pattern character
  with a text character) are parameters of the model: every function that needs them takes
  a \<open>unicode_db\<close>, and the general theorems hold for every such table.
\<close>

record unicode_db =
  str_lower :: "pystr \<Rightarrow> pystr"
  str_upper :: "pystr \<Rightarrow> pystr"
  word_char :: "int \<Rightarrow> bool"
  ci_eq :: "int \<Rightarrow> int \<Rightarrow> bool"

text \<open>
  A concrete table for texts made of ASCII characters and Hangul syllables
  (U+AC00 .. U+D7A3), on which it agrees with CPython: only ASCII letters have case, and
  the word characters are the ASCII letters, digits, the underscore and the syllables.
\<close>

definition ascii_lower :: "int \<Rightarrow> int" where
  "ascii_lower c = (if 65 \<le> c \<and> c \<le> 90 then c + 32 else c)"

definition ascii_upper :: "int \<Rightarrow> int" where
  "ascii_upper c = (if 97 \<le> c \<and> c \<le> 122 then c - 32 else c)"

definition ascii_hangul_word :: "int \<Rightarrow> bool" where
  "ascii_hangul_word c \<longleftrightarrow>
     (48 \<le> c \<and> c \<le> 57) \<or> (65 \<le> c \<and> c \<le> 90) \<or> c = 95 \<or> (97 \<le> c \<and> c \<le> 122)
     \<or> (44032 \<le> c \<and> c \<le> 55203)"

definition ascii_hangul :: unicode_db where
  "ascii_hangul =
     \<lparr> str_lower = map ascii_lower,
       str_upper = map ascii_upper,
       word_char = ascii_hangul_word,
       ci_eq = (\<lambda>p c. ascii_lower p = ascii_lower c) \<rparr>"

text \<open>
  The characters \<open>str.strip()\<close> removes: those for which
  \<open>str.isspace()\<close> holds.
\<close>

definition is_space :: "int \<Rightarrow> bool" where
  "is_space c \<longleftrightarrow>
     (9 \<le> c \<and> c \<le> 13) \<or> (28 \<le> c \<and> c \<le> 32) \<or> c = 133 \<or> c = 160 \<or> c = 5760
     \<or> (8192 \<le> c \<and> c \<le> 8202) \<or> c = 8232 \<or> c = 8233 \<or> c = 8239 \<or> c = 8287
     \<or> c = 12288"

definition strip :: "pystr \<Rightarrow> pystr" where
  "strip s = rev (dropWhile is_space (rev (dropWhile is_space s)))"

text \<open>\<open>keyword in answer\<close>: the keyword occurs as a contiguous substring.\<close>

fun starts_with :: "pystr \<Rightarrow> pystr \<Rightarrow> bool" where
  "starts_with [] s = True"
| "starts_with (k # ks) [] = False"
| "starts_with (k # ks) (c # s) = (k = c \<and> starts_with ks s)"

fun str_contains :: "pystr \<Rightarrow> pystr \<Rightarrow> bool" where
  "str_contains k [] = starts_with k []"
| "str_contains k (c # s) = (starts_with k (c # s) \<or> str_contains k s)"

subsection \<open>The regular expressions of the quality service\<close>

text \<open>
  Every pattern of the service is a sequence of literal characters and \<open>.*\<close>, searched
  with \<open>re.IGNORECASE\<close>. \<open>.\<close> matches any character except the newline (code 10);
  \<open>re.search\<close> succeeds when the pattern matches at some position of the text.
\<close>

datatype re_item = Chr int | DotStar

type_synonym pattern = "re_item list"

definition lit :: "pystr \<Rightarrow> pattern" where
  "lit s = map Chr s"

fun match_here :: "unicode_db \<Rightarrow> pattern \<Rightarrow> pystr \<Rightarrow> bool" where
  "match_here U [] s = True"
| "match_here U (Chr p # ps) [] = False"
| "match_here U (Chr p # ps) (c # s) = (ci_eq U p c \<and> match_here U ps s)"
| "match_here U (DotStar # ps) [] = match_here U ps []"
| "match_here U (DotStar # ps) (c # s) =
     (match_here U ps (c # s) \<or> (c \<noteq> 10 \<and> match_here U (DotStar # ps) s))"

fun re_search :: "unicode_db \<Rightarrow> pattern \<Rightarrow> pystr \<Rightarrow> bool" where
  "re_search U p [] = match_here U p []"
| "re_search U p (c # s) = (match_here U p (c # s) \<or> re_search U p s)"

text \<open>
  \<open>re.findall(r'\b\w{3,}\b', s)\<close>: a match must start and end at a word boundary and
  \<open>\w{3,}\<close> is greedy, so the matches are exactly the maximal runs of word characters
  that are at least three characters long, from left to right.
\<close>

fun word_runs :: "(int \<Rightarrow> bool) \<Rightarrow> pystr \<Rightarrow> pystr \<Rightarrow> pystr list" where
  "word_runs w cur [] = (if cur = [] then [] else [cur])"
| "word_runs w cur (c # s) =
     (if w c then word_runs w (cur @ [c]) s
      else (if cur = [] then [] else [cur]) @ word_runs w [] s)"

definition findall_words :: "unicode_db \<Rightarrow> pystr \<Rightarrow> pystr list" where
  "findall_words U s = filter (\<lambda>r. 3 \<le> length r) (word_runs (word_char U) [] s)"

section \<open>The quality validation service\<close>

subsection \<open>Pattern and keyword tables\<close>

text \<open>
  The tables of \<open>QualityAssuranceService.__init__\<close>, written as code points; the source
  text of each entry is given beside it.
\<close>

definition boilerplate_patterns :: "pattern list" where
  "boilerplate_patterns =
   [ \<comment> \<open>\<^verbatim>\<open>U+B3C4 U+C640 U+B4DC U+B9B4 ' ' U+C218 ' ' U+C788\<close>\<close>
     lit [46020, 50752, 46300, 47540, 32, 49688, 32, 51080],
     \<comment> \<open>\<^verbatim>\<open>U+C5B4 U+B5BB U+AC8C .* U+B3C4 U+C640\<close>\<close>
     lit [50612, 46523, 44172] @ [DotStar] @ lit [46020, 50752],
     \<comment> \<open>\<^verbatim>\<open>U+BB34 U+C5C7 .* U+C6D0 U+D558 U+C2DC\<close>\<close>
     lit [47924, 50631] @ [DotStar] @ lit [50896, 54616, 49884],
     \<comment> \<open>\<^verbatim>\<open>As an AI\<close>\<close>
     lit [65, 115, 32, 97, 110, 32, 65, 73],
     \<comment> \<open>\<^verbatim>\<open>I'm an AI\<close>\<close>
     lit [73, 39, 109, 32, 97, 110, 32, 65, 73],
     \<comment> \<open>\<^verbatim>\<open>assist you\<close>\<close>
     lit [97, 115, 115, 105, 115, 116, 32, 121, 111, 117],
     \<comment> \<open>\<^verbatim>\<open>U+C8C4 U+C1A1 U+D569 U+B2C8 U+B2E4 .* U+B3C4 U+C640 U+B4DC U+B9AC U+C9C0\<close>\<close>
     lit [51396, 49569, 54633, 45768, 45796] @ [DotStar] @ lit [46020, 50752, 46300, 47532, 51648],
     \<comment> \<open>\<^verbatim>\<open>U+B354 ' ' U+AD6C U+CCB4 U+C801 U+C73C U+B85C .* U+B9D0 U+C500 U+D574\<close>\<close>
     lit [45908, 32, 44396, 52404, 51201, 51004, 47196] @ [DotStar] @ lit [47568, 50432, 54644] ]"

definition hallucination_indicators :: "pattern list" where
  "hallucination_indicators =
   [ \<comment> \<open>\<^verbatim>\<open>U+D655 U+C2E4 U+D558 U+C9C0 .* U+C54A U+C9C0 U+B9CC\<close>\<close>
     lit [54869, 49892, 54616, 51648] @ [DotStar] @ lit [50506, 51648, 47564],
     \<comment> \<open>\<^verbatim>\<open>U+CD94 U+CE21 .* U+C785 U+B2C8 U+B2E4\<close>\<close>
     lit [52628, 52769] @ [DotStar] @ lit [51077, 45768, 45796],
     \<comment> \<open>\<^verbatim>\<open>U+C544 U+B9C8 U+B3C4\<close>\<close>
     lit [50500, 47560, 46020],
     \<comment> \<open>\<^verbatim>\<open>U+AC83 ' ' U+AC19 U+C2B5 U+B2C8 U+B2E4\<close>\<close>
     lit [44163, 32, 44057, 49845, 45768, 45796],
     \<comment> \<open>\<^verbatim>\<open>U+C0DD U+AC01 U+B429 U+B2C8 U+B2E4\<close>\<close>
     lit [49373, 44033, 46121, 45768, 45796],
     \<comment> \<open>\<^verbatim>\<open>U+CD94 U+C815 .* U+B429 U+B2C8 U+B2E4\<close>\<close>
     lit [52628, 51221] @ [DotStar] @ lit [46121, 45768, 45796] ]"

definition confidence_keywords_high :: "pystr list" where
  "confidence_keywords_high =
   [ [51221, 54869, 55176], [47749, 49884, 46104, 50612],
     [47928, 49436, 50640, 32, 46384, 47476, 47732], [49324, 50577, 49436, 50640, 49436] ]"

definition confidence_keywords_medium :: "pystr list" where
  "confidence_keywords_medium =
   [ [51068, 48152, 51201, 51004, 47196], [48372, 53685], [45824, 52404, 47196] ]"

definition confidence_keywords_low :: "pystr list" where
  "confidence_keywords_low =
   [ [44032, 45733, 49457, 51060], [52628, 51221], [50696, 49345],
     [44163, 51004, 47196, 32, 48372, 51076] ]"

subsection \<open>Result dictionaries\<close>

text \<open>
  The dictionaries the service builds have fixed keys, so each is a record. The messages
  appended to \<open>issues\<close> and \<open>suggestions\<close> are fixed Korean sentences; each is a constructor.
  \<open>risk_level\<close> and \<open>confidence_level\<close> hold one of the strings "low", "medium", "high".
\<close>

datatype issue =
    Answer_too_short_or_empty
  | Information_not_found
  | Boilerplate_detected
  | High_hallucination_risk
  | Source_inconsistency

datatype suggestion =
    Need_more_specific_information
  | Reduce_speculative_expressions
  | Reflect_source_content
  | Need_more_accurate_sources

datatype level = low | medium | high

record basic_validation =
  basic_is_valid :: bool
  basic_issues :: "issue list"
  check_length :: bool
  check_not_na :: bool
  check_not_boilerplate :: bool

record hallucination_check =
  risk_level :: level
  indicators_found :: "pattern list"
  risk_score :: real

record source_validation =
  is_consistent :: bool
  consistency_score :: real
  source_coverage :: real

record confidence_analysis =
  confidence_level :: level
  keywords_found_high :: "pystr list"
  keywords_found_medium :: "pystr list"
  keywords_found_low :: "pystr list"

record validation_result =
  is_valid :: bool
  quality_score :: real
  issues :: "issue list"
  suggestions :: "suggestion list"
  confidence_adjusted :: real
  details_basic :: basic_validation
  details_hallucination :: hallucination_check
  details_source_consistency :: source_validation
  details_confidence_keywords :: confidence_analysis

text \<open>
  A source is a dictionary from keys to texts; the service reads the key
  \<open>content\<close>.
\<close>

type_synonym source_dict = "string \<rightharpoonup> pystr"

subsection \<open>The four checks\<close>

definition validate_basic_answer :: "unicode_db \<Rightarrow> pystr \<Rightarrow> basic_validation" where
  "validate_basic_answer U answer =
    (let r0 = \<lparr> basic_is_valid = True, basic_issues = [], check_length = True,
                 check_not_na = True, check_not_boilerplate = True \<rparr>;
         r1 = (if answer = [] \<or> length (strip answer) < 5
               then r0\<lparr> basic_is_valid := False,
                        basic_issues := basic_issues r0 @ [Answer_too_short_or_empty],
                        check_length := False \<rparr>
               else r0\<lparr> check_length := True \<rparr>);
         r2 = (if str_upper U (strip answer) = [78, 47, 65]
               then r1\<lparr> basic_is_valid := False,
                        basic_issues := basic_issues r1 @ [Information_not_found],
                        check_not_na := False \<rparr>
               else r1\<lparr> check_not_na := True \<rparr>);
         is_boilerplate = list_ex (\<lambda>p. re_search U p answer) boilerplate_patterns
     in (if is_boilerplate
         then r2\<lparr> basic_is_valid := False,
                  basic_issues := basic_issues r2 @ [Boilerplate_detected],
                  check_not_boilerplate := False \<rparr>
         else r2\<lparr> check_not_boilerplate := True \<rparr>))"

text \<open>The loop of \<open>_check_hallucination\<close>: one step per indicator pattern.\<close>

fun scan_indicators :: "unicode_db \<Rightarrow> pystr \<Rightarrow> pattern list \<Rightarrow> hallucination_check \<Rightarrow> hallucination_check" where
  "scan_indicators U answer [] r = r"
| "scan_indicators U answer (p # ps) r =
     scan_indicators U answer ps
       (if re_search U p answer
        then r\<lparr> indicators_found := indicators_found r @ [p], risk_score := risk_score r + 0.2 \<rparr>
        else r)"

definition check_hallucination :: "unicode_db \<Rightarrow> pystr \<Rightarrow> hallucination_check" where
  "check_hallucination U answer =
    (let r = scan_indicators U answer hallucination_indicators
               \<lparr> risk_level = low, indicators_found = [], risk_score = 0 \<rparr>
     in if risk_score r \<ge> 0.6 then r\<lparr> risk_level := high \<rparr>
        else if risk_score r \<ge> 0.3 then r\<lparr> risk_level := medium \<rparr>
        else r\<lparr> risk_level := low \<rparr>)"

text \<open>
  The loop that collects the words of the sources that have a \<open>content\<close> key.
\<close>

fun collect_source_keywords :: "unicode_db \<Rightarrow> source_dict list \<Rightarrow> pystr set \<Rightarrow> pystr set" where
  "collect_source_keywords U [] acc = acc"
| "collect_source_keywords U (src # srcs) acc =
     collect_source_keywords U srcs
       (case src ''content'' of
          None \<Rightarrow> acc
        | Some c \<Rightarrow> acc \<union> set (findall_words U (str_lower U c)))"

definition validate_source_consistency :: "unicode_db \<Rightarrow> pystr \<Rightarrow> source_dict list \<Rightarrow> source_validation" where
  "validate_source_consistency U answer sources =
    (let r = \<lparr> is_consistent = True, consistency_score = 1, source_coverage = 0 \<rparr>
     in if sources = [] then r\<lparr> is_consistent := False, consistency_score := 0 \<rparr>
        else
          let answer_keywords = set (findall_words U (str_lower U answer));
              source_keywords = collect_source_keywords U sources {}
          in if answer_keywords \<noteq> {} \<and> source_keywords \<noteq> {}
             then
               let overlap = card (answer_keywords \<inter> source_keywords);
                   coverage = real overlap / real (card answer_keywords)
               in if coverage < 0.3
                  then r\<lparr> source_coverage := coverage, is_consistent := False,
                          consistency_score := coverage \<rparr>
                  else r\<lparr> source_coverage := coverage \<rparr>
             else r)"

definition analyze_confidence_keywords :: "pystr \<Rightarrow> confidence_analysis" where
  "analyze_confidence_keywords answer =
    (let found_high = filter (\<lambda>k. str_contains k answer) confidence_keywords_high;
         found_medium = filter (\<lambda>k. str_contains k answer) confidence_keywords_medium;
         found_low = filter (\<lambda>k. str_contains k answer) confidence_keywords_low
     in \<lparr> confidence_level =
            (if found_high \<noteq> [] then high else if found_low \<noteq> [] then low else medium),
          keywords_found_high = found_high,
          keywords_found_medium = found_medium,
          keywords_found_low = found_low \<rparr>)"

subsection \<open>The composite score and the validation\<close>

definition hallucination_score :: "level \<Rightarrow> real" where
  "hallucination_score l = (case l of low \<Rightarrow> 0.3 | medium \<Rightarrow> 0.15 | high \<Rightarrow> 0.0)"

definition confidence_score :: "level \<Rightarrow> real" where
  "confidence_score l = (case l of high \<Rightarrow> 0.1 | medium \<Rightarrow> 0.05 | low \<Rightarrow> 0.0)"

definition calculate_quality_score ::
  "basic_validation \<Rightarrow> hallucination_check \<Rightarrow> source_validation \<Rightarrow> confidence_analysis \<Rightarrow> real" where
  "calculate_quality_score basic hallucination source confidence =
    (let score0 = (0::real);
         score1 = (if basic_is_valid basic then score0 + 0.4 else score0);
         score2 = score1 + hallucination_score (risk_level hallucination);
         score3 = score2 + 0.2 * consistency_score source;
         score4 = score3 + confidence_score (confidence_level confidence)
     in min 1.0 score4)"

definition generate_suggestions :: "validation_result \<Rightarrow> suggestion list" where
  "generate_suggestions v =
     (if quality_score v < 0.5 then [Need_more_specific_information] else [])
     @ (if risk_level (details_hallucination v) = high then [Reduce_speculative_expressions] else [])
     @ (if \<not> is_consistent (details_source_consistency v) then [Reflect_source_content] else [])
     @ (if confidence_adjusted v < 0.5 then [Need_more_accurate_sources] else [])"

definition validate_answer ::
  "unicode_db \<Rightarrow> pystr \<Rightarrow> pystr \<Rightarrow> source_dict list \<Rightarrow> real \<Rightarrow> validation_result" where
  "validate_answer U question answer sources confidence =
    (let basic = validate_basic_answer U answer;
         hallucination = check_hallucination U answer;
         source = validate_source_consistency U answer sources;
         keywords = analyze_confidence_keywords answer;
         v0 = \<lparr> is_valid = True, quality_score = 0, issues = [], suggestions = [],
                 confidence_adjusted = confidence,
                 details_basic = basic, details_hallucination = hallucination,
                 details_source_consistency = source, details_confidence_keywords = keywords \<rparr>;
         v1 = (if \<not> basic_is_valid basic
               then v0\<lparr> is_valid := False, issues := issues v0 @ basic_issues basic \<rparr>
               else v0);
         v2 = (if risk_level hallucination = high
               then v1\<lparr> confidence_adjusted := confidence_adjusted v1 * 0.5,
                        issues := issues v1 @ [High_hallucination_risk] \<rparr>
               else v1);
         v3 = (if \<not> is_consistent source
               then v2\<lparr> confidence_adjusted := confidence_adjusted v2 * 0.7,
                        issues := issues v2 @ [Source_inconsistency] \<rparr>
               else v2);
         v4 = v3\<lparr> quality_score := calculate_quality_score basic hallucination source keywords \<rparr>
     in v4\<lparr> suggestions := generate_suggestions v4 \<rparr>)"

subsection \<open>The self-test\<close>

text \<open>
  A test case is a dictionary read with \<open>get\<close> and a default, so every key is optional.
  \<open>selftest_summary\<close> is the dictionary \<open>results\<close>: its keys \<open>passed\<close> and \<open>failed\<close> are the
  fields \<open>passed_count\<close> and \<open>failed_count\<close>, and \<open>timestamp\<close> is the reading of the clock,
  given as an argument.
\<close>

record test_case =
  tc_question :: "pystr option"
  tc_expected_answer :: "pystr option"
  tc_actual_answer :: "pystr option"
  tc_expected_validation :: "bool option"
  tc_sources :: "source_dict list option"
  tc_confidence :: "real option"

record test_result =
  test_id :: nat
  tr_question :: pystr
  tr_expected_answer :: pystr
  tr_actual_answer :: pystr
  tr_expected_validation :: bool
  passed :: bool
  tr_validation_result :: validation_result

record selftest_summary =
  total_tests :: nat
  passed_count :: nat
  failed_count :: nat
  test_results :: "test_result list"
  overall_score :: real
  timestamp :: pystr

definition get_or :: "'a option \<Rightarrow> 'a \<Rightarrow> 'a" where
  "get_or v d = (case v of None \<Rightarrow> d | Some x \<Rightarrow> x)"

definition run_case :: "unicode_db \<Rightarrow> nat \<Rightarrow> test_case \<Rightarrow> test_result" where
  "run_case U i tc =
    (let validation = validate_answer U (get_or (tc_question tc) [])
                        (get_or (tc_actual_answer tc) [])
                        (get_or (tc_sources tc) [])
                        (get_or (tc_confidence tc) 0.5)
     in \<lparr> test_id = i + 1,
          tr_question = get_or (tc_question tc) [],
          tr_expected_answer = get_or (tc_expected_answer tc) [],
          tr_actual_answer = get_or (tc_actual_answer tc) [],
          tr_expected_validation = get_or (tc_expected_validation tc) True,
          passed =
            (if get_or (tc_expected_validation tc) True
             then is_valid validation \<and> quality_score validation \<ge> 0.5
             else \<not> is_valid validation \<or> quality_score validation < 0.5),
          tr_validation_result = validation \<rparr>)"

fun selftest_loop :: "unicode_db \<Rightarrow> nat \<Rightarrow> test_case list \<Rightarrow> selftest_summary \<Rightarrow> selftest_summary" where
  "selftest_loop U i [] r = r"
| "selftest_loop U i (tc # tcs) r =
     (let t = run_case U i tc;
          r1 = (if passed t then r\<lparr> passed_count := passed_count r + 1 \<rparr>
                else r\<lparr> failed_count := failed_count r + 1 \<rparr>)
      in selftest_loop U (i + 1) tcs (r1\<lparr> test_results := test_results r1 @ [t] \<rparr>))"

definition run_selftest :: "unicode_db \<Rightarrow> test_case list \<Rightarrow> pystr \<Rightarrow> selftest_summary" where
  "run_selftest U test_cases now =
    (let r0 = \<lparr> total_tests = length test_cases, passed_count = 0, failed_count = 0,
                 test_results = [], overall_score = 0, timestamp = now \<rparr>;
         r1 = selftest_loop U 0 test_cases r0
     in r1\<lparr> overall_score :=
              (if total_tests r1 > 0 then real (passed_count r1) / real (total_tests r1) else 0) \<rparr>)"

section \<open>The multi-source service\<close>

subsection \<open>Requests and responses\<close>

datatype DataSource = DOCUMENTS | DATABASE | WEB_SEARCH

datatype UserRole = ENGINEER | QUALITY | SALES | SUPPORT

text \<open>The strings a \<open>status\<close> field can hold.\<close>

datatype search_status = success | partial | failed | disabled

text \<open>
  \<open>MultiSourceInfo\<close>; its field \<open>section\<close> is \<open>section_name\<close> here. A \<open>Dict[str, Any]\<close> of
  metadata is an association list.
\<close>

record MultiSourceInfo =
  source_type :: DataSource
  source_id :: pystr
  content :: pystr
  relevance_score :: real
  metadata :: "(string \<times> pystr) list"
  document_name :: "pystr option"
  page_number :: "int option"
  section_name :: "pystr option"
  url :: "pystr option"
  web_source :: "pystr option"

record SourceSearchResult =
  result_source_type :: DataSource
  results :: "MultiSourceInfo list"
  search_time_ms :: int
  total_found :: nat
  status :: search_status
  error_message :: "pystr option"

record MultiSourceQueryRequest =
  question :: pystr
  user_role :: UserRole
  data_sources :: "DataSource list"
  document_filter :: "(string \<times> pystr) list option"
  top_k_per_source :: int
  enable_web_search :: bool
  web_search_query :: "pystr option"
  combine_results :: bool

record SourceWeight =
  documents :: real
  database :: real
  web_search :: real

record AdvancedMultiSourceRequest =
  adv_question :: pystr
  adv_user_role :: UserRole
  adv_data_sources :: "DataSource list"
  source_weights :: "SourceWeight option"
  adv_top_k_per_source :: int
  min_relevance_threshold :: real
  adv_enable_web_search :: bool
  web_search_engine :: "pystr option"
  manufacturing_focus :: bool
  adv_document_filter :: "(string \<times> pystr) list option"

record MultiSourceQueryResponse =
  answer :: pystr
  confidence :: real
  sources :: "MultiSourceInfo list"
  query_time_ms :: int
  model_used :: pystr
  sources_by_type :: "DataSource \<rightharpoonup> nat"
  search_strategy :: string
  total_sources_searched :: nat

record MultiSourceSearchResponse =
  msr_question :: pystr
  source_results :: "SourceSearchResult list"
  combined_answer :: "pystr option"
  total_search_time_ms :: int
  successful_sources :: nat
  failed_sources :: nat

subsection \<open>The collaborators\<close>

text \<open>
  The retrieval services, the clock and the language model are outside the repository's
  core. One \<open>search_run\<close> describes what one search coroutine meets: what the body of its
  \<open>try\<close> block obtains from its collaborator (\<open>Raised e\<close> is any exception raised there,
  with \<open>str(e) = e\<close>; \<open>Returned rows\<close> carries the rows from which the items are built),
  the milliseconds the coroutine measures, and \<open>escaped\<close>, an exception that leaves the
  coroutine because it is raised outside the \<open>try\<close> block. The reply of the language
  model is an argument of the functions that call it: \<open>generate_response\<close> returns a
  string on every path, and the prompt only reaches that collaborator.
\<close>

datatype 'a outcome = Returned 'a | Raised pystr

record SourceInfo =
  document_id :: pystr
  si_document_name :: pystr
  si_page_number :: "int option"
  si_section :: "pystr option"
  si_relevance_score :: real
  content_preview :: "pystr option"

record db_row =
  row_id :: pystr
  row_content :: pystr
  similarity :: real
  row_metadata :: "(string \<times> pystr) list"

record web_row =
  w_url :: "pystr option"
  w_content :: "pystr option"
  w_relevance_score :: "real option"
  w_source :: "pystr option"
  w_title :: "pystr option"
  w_type :: "pystr option"

record search_run =
  escaped :: "pystr option"
  rag_reply :: "SourceInfo list outcome"
  db_reply :: "db_row list outcome"
  web_reply :: "web_row list outcome"
  elapsed_ms :: int

subsection \<open>The three searches\<close>

definition failed_result :: "DataSource \<Rightarrow> int \<Rightarrow> pystr \<Rightarrow> SourceSearchResult" where
  "failed_result src t e =
     \<lparr> result_source_type = src, results = [], search_time_ms = t, total_found = 0,
       status = failed, error_message = Some e \<rparr>"

definition success_result :: "DataSource \<Rightarrow> int \<Rightarrow> MultiSourceInfo list \<Rightarrow> SourceSearchResult" where
  "success_result src t items =
     \<lparr> result_source_type = src, results = items, search_time_ms = t,
       total_found = length items, status = success, error_message = None \<rparr>"

definition document_item :: "SourceInfo \<Rightarrow> MultiSourceInfo" where
  "document_item s =
     \<lparr> source_type = DOCUMENTS, source_id = document_id s,
       content = get_or (content_preview s) [],
       relevance_score = si_relevance_score s,
       metadata = [(''document_id'', document_id s), (''document_name'', si_document_name s)],
       document_name = Some (si_document_name s), page_number = si_page_number s,
       section_name = si_section s, url = None, web_source = None \<rparr>"

definition database_item :: "db_row \<Rightarrow> MultiSourceInfo" where
  "database_item r =
     \<lparr> source_type = DATABASE, source_id = row_id r, content = row_content r,
       relevance_score = similarity r, metadata = row_metadata r,
       document_name = None, page_number = None, section_name = None,
       url = None, web_source = None \<rparr>"

definition web_item :: "web_row \<Rightarrow> MultiSourceInfo" where
  "web_item r =
     \<lparr> source_type = WEB_SEARCH, source_id = get_or (w_url r) [],
       content = get_or (w_content r) [],
       relevance_score = get_or (w_relevance_score r) 0.5,
       metadata = [(''title'', get_or (w_title r) []), (''type'', get_or (w_type r) []),
                   (''source'', get_or (w_source r) [])],
       document_name = None, page_number = None, section_name = None,
       url = Some (get_or (w_url r) []), web_source = Some (get_or (w_source r) []) \<rparr>"

definition search_documents :: "MultiSourceQueryRequest \<Rightarrow> search_run \<Rightarrow> SourceSearchResult" where
  "search_documents request run =
     (case rag_reply run of
        Returned rows \<Rightarrow> success_result DOCUMENTS (elapsed_ms run) (map document_item rows)
      | Raised e \<Rightarrow> failed_result DOCUMENTS (elapsed_ms run) e)"

definition search_database :: "MultiSourceQueryRequest \<Rightarrow> search_run \<Rightarrow> SourceSearchResult" where
  "search_database request run =
     (case db_reply run of
        Returned rows \<Rightarrow> success_result DATABASE (elapsed_ms run) (map database_item rows)
      | Raised e \<Rightarrow> failed_result DATABASE (elapsed_ms run) e)"

text \<open>The message of a disabled web search, a Korean sentence of 18 characters.\<close>

definition web_search_disabled_message :: pystr where
  "web_search_disabled_message =
     [50937, 32, 44160, 49353, 51060, 32, 48708, 54876, 49457, 54868, 46104, 50612, 32,
      51080, 49845, 45768, 45796, 46]"

definition search_web :: "MultiSourceQueryRequest \<Rightarrow> search_run \<Rightarrow> SourceSearchResult" where
  "search_web request run =
     (if \<not> enable_web_search request
      then \<lparr> result_source_type = WEB_SEARCH, results = [], search_time_ms = 0, total_found = 0,
             status = disabled, error_message = Some web_search_disabled_message \<rparr>
      else
        (case web_reply run of
           Returned rows \<Rightarrow> success_result WEB_SEARCH (elapsed_ms run) (map web_item rows)
         | Raised e \<Rightarrow> failed_result WEB_SEARCH (elapsed_ms run) e))"

subsection \<open>The orchestrator\<close>

text \<open>
  A task is the coroutine of one requested source; \<open>asyncio.gather\<close> with
  \<open>return_exceptions=True\<close> gives, in the order of the tasks, the value each returned or
  the exception that left it. The \<open>i\<close>-th task meets \<open>runs i\<close>.
\<close>

definition search_task ::
  "MultiSourceQueryRequest \<Rightarrow> DataSource \<Rightarrow> search_run \<Rightarrow> pystr + SourceSearchResult" where
  "search_task request src run =
     (case escaped run of
        Some e \<Rightarrow> Inl e
      | None \<Rightarrow>
          Inr (case src of
                 DOCUMENTS \<Rightarrow> search_documents request run
               | DATABASE \<Rightarrow> search_database request run
               | WEB_SEARCH \<Rightarrow> search_web request run))"

fun gather_tasks ::
  "MultiSourceQueryRequest \<Rightarrow> (nat \<Rightarrow> search_run) \<Rightarrow> nat \<Rightarrow> DataSource list
    \<Rightarrow> (pystr + SourceSearchResult) list" where
  "gather_tasks request runs i [] = []"
| "gather_tasks request runs i (src # srcs) =
     search_task request src (runs i) # gather_tasks request runs (i + 1) srcs"

fun process_results ::
  "MultiSourceQueryRequest \<Rightarrow> nat \<Rightarrow> (pystr + SourceSearchResult) list \<Rightarrow> SourceSearchResult list" where
  "process_results request i [] = []"
| "process_results request i (r # rs) =
     (case r of
        Inl e \<Rightarrow> failed_result (data_sources request ! i) 0 e
      | Inr x \<Rightarrow> x) # process_results request (i + 1) rs"

definition execute_multi_source_search ::
  "MultiSourceQueryRequest \<Rightarrow> (nat \<Rightarrow> search_run) \<Rightarrow> SourceSearchResult list" where
  "execute_multi_source_search request runs =
     (let search_tasks = gather_tasks request runs 0 (data_sources request)
      in if search_tasks \<noteq> [] then process_results request 0 search_tasks else [])"

definition determine_search_strategy :: "MultiSourceQueryRequest \<Rightarrow> string" where
  "determine_search_strategy request =
     (if length (data_sources request) = 1 then ''fast''
      else if WEB_SEARCH \<in> set (data_sources request) then ''comprehensive''
      else if top_k_per_source request \<le> 3 then ''fast''
      else ''balanced'')"

subsection \<open>Fusion and answer\<close>

fun collect_sources ::
  "SourceSearchResult list \<Rightarrow> MultiSourceInfo list \<times> (DataSource \<rightharpoonup> nat)
    \<Rightarrow> MultiSourceInfo list \<times> (DataSource \<rightharpoonup> nat)" where
  "collect_sources [] acc = acc"
| "collect_sources (r # rs) (all_sources, by_type) =
     collect_sources rs
       (if status r = success
        then (all_sources @ results r, by_type(result_source_type r \<mapsto> length (results r)))
        else (all_sources, by_type))"

text \<open>
  \<open>list.sort(key=lambda x: x.relevance_score, reverse=True)\<close>: a stable sort into
  descending order of the score, items of equal score keeping their order.
\<close>

definition sort_by_relevance :: "MultiSourceInfo list \<Rightarrow> MultiSourceInfo list" where
  "sort_by_relevance xs = sort_key (\<lambda>x. - relevance_score x) xs"

definition combine_and_generate_answer ::
  "unicode_db \<Rightarrow> MultiSourceQueryRequest \<Rightarrow> SourceSearchResult list \<Rightarrow> pystr \<Rightarrow> pystr
    \<Rightarrow> MultiSourceQueryResponse" where
  "combine_and_generate_answer U request search_results llm_answer model =
     (let (all_sources0, by_type) = collect_sources search_results ([], Map.empty);
          all_sources = sort_by_relevance all_sources0;
          top_sources = take 10 all_sources;
          source_contents = map content top_sources;
          validation = validate_answer U (question request) llm_answer
                         (map (\<lambda>c. [''content'' \<mapsto> c]) source_contents) 0.8
      in \<lparr> answer = llm_answer,
           confidence = confidence_adjusted validation,
           sources = top_sources,
           query_time_ms = 0,
           model_used = model,
           sources_by_type = by_type,
           search_strategy = ''balanced'',
           total_sources_searched = length all_sources \<rparr>)"

datatype query_result =
    Combined MultiSourceQueryResponse
  | Individual MultiSourceSearchResponse

definition query ::
  "unicode_db \<Rightarrow> MultiSourceQueryRequest \<Rightarrow> (nat \<Rightarrow> search_run) \<Rightarrow> pystr \<Rightarrow> pystr \<Rightarrow> int
    \<Rightarrow> query_result" where
  "query U request runs llm_answer model query_time =
     (let strategy = determine_search_strategy request;
          search_results = execute_multi_source_search request runs
      in if combine_results request
         then Combined ((combine_and_generate_answer U request search_results llm_answer model)
                          \<lparr> query_time_ms := query_time \<rparr>)
         else Individual
                \<lparr> msr_question = question request,
                  source_results = search_results,
                  combined_answer = None,
                  total_search_time_ms = query_time,
                  successful_sources = length (filter (\<lambda>r. status r = success) search_results),
                  failed_sources = length (filter (\<lambda>r. status r = failed) search_results) \<rparr>)"

subsection \<open>The advanced endpoint\<close>

datatype http_error = HTTP_400 | HTTP_500

definition weight_map :: "SourceWeight \<Rightarrow> DataSource \<Rightarrow> real" where
  "weight_map weights src =
     (case src of DOCUMENTS \<Rightarrow> documents weights
                | DATABASE \<Rightarrow> database weights
                | WEB_SEARCH \<Rightarrow> web_search weights)"

definition apply_weight :: "SourceWeight \<Rightarrow> MultiSourceInfo \<Rightarrow> MultiSourceInfo" where
  "apply_weight weights source =
     source\<lparr> relevance_score := relevance_score source * weight_map weights (source_type source) \<rparr>"

definition apply_source_weights ::
  "MultiSourceQueryResponse \<Rightarrow> SourceWeight \<Rightarrow> MultiSourceQueryResponse" where
  "apply_source_weights response weights =
     response\<lparr> sources := sort_by_relevance (map (apply_weight weights) (sources response)) \<rparr>"

text \<open>
  The \<open>MultiSourceQueryRequest\<close> that the endpoint builds from its own request.
\<close>

definition basic_request_of :: "AdvancedMultiSourceRequest \<Rightarrow> MultiSourceQueryRequest" where
  "basic_request_of request =
     \<lparr> question = adv_question request,
       user_role = adv_user_role request,
       data_sources = adv_data_sources request,
       document_filter = adv_document_filter request,
       top_k_per_source = adv_top_k_per_source request,
       enable_web_search = adv_enable_web_search request,
       web_search_query = None,
       combine_results = True \<rparr>"

definition advanced_multi_source_query ::
  "unicode_db \<Rightarrow> AdvancedMultiSourceRequest \<Rightarrow> (nat \<Rightarrow> search_run) \<Rightarrow> pystr \<Rightarrow> pystr \<Rightarrow> int
    \<Rightarrow> http_error + MultiSourceQueryResponse" where
  "advanced_multi_source_query U request runs llm_answer model query_time =
     (if strip (adv_question request) = [] then Inl HTTP_400
      else
        let basic_request = basic_request_of request
        in case query U basic_request runs llm_answer model query_time of
             Individual r \<Rightarrow> Inl HTTP_500
           | Combined response \<Rightarrow>
               let response1 = (case source_weights request of
                                  Some w \<Rightarrow> apply_source_weights response w
                                | None \<Rightarrow> response);
                   response2 = (if min_relevance_threshold request > 0
                                then response1\<lparr> sources :=
                                       filter (\<lambda>source. relevance_score source
                                                 \<ge> min_relevance_threshold request)
                                              (sources response1) \<rparr>
                                else response1)
               in Inr response2)"

section \<open>Notions of the specification\<close>

text \<open>
  The definitions of this section are not taken from the code: they name what the
  specification talks about, so that the theorems can compare the code with it.
\<close>

text \<open>The hallucination-indicator patterns that an answer matches.\<close>

definition matched_indicators :: "unicode_db \<Rightarrow> pystr \<Rightarrow> pattern list" where
  "matched_indicators U a = filter (\<lambda>p. re_search U p a) hallucination_indicators"

text \<open>
  The lowercase words of at least three characters of the answer and of the sources.
\<close>

definition answer_words :: "unicode_db \<Rightarrow> pystr \<Rightarrow> pystr set" where
  "answer_words U a = set (findall_words U (str_lower U a))"

definition source_words :: "unicode_db \<Rightarrow> source_dict list \<Rightarrow> pystr set" where
  "source_words U srcs =
     (\<Union>src \<in> set srcs. case src ''content'' of
                            None \<Rightarrow> {}
                          | Some c \<Rightarrow> set (findall_words U (str_lower U c)))"

text \<open>
  The word-overlap ratio \<open>|answer_words \<inter> source_words| /
  |answer_words|\<close>.
\<close>

definition overlap_ratio :: "unicode_db \<Rightarrow> pystr \<Rightarrow> source_dict list \<Rightarrow> real" where
  "overlap_ratio U a srcs =
     real (card (answer_words U a \<inter> source_words U srcs)) / real (card (answer_words U a))"

text \<open>
  The composite score in the words of the specification: each table value is multiplied
  by the weight of its check, and the sum is clamped to the unit interval.
\<close>

definition spec_quality_score :: "bool \<Rightarrow> level \<Rightarrow> real \<Rightarrow> level \<Rightarrow> real" where
  "spec_quality_score basic_valid hallucination_level consistency keyword_level =
     max 0 (min 1
       (0.4 * (if basic_valid then 1 else 0)
        + 0.3 * (case hallucination_level of low \<Rightarrow> 0.3 | medium \<Rightarrow> 0.15 | high \<Rightarrow> 0.0)
        + 0.2 * consistency
        + 0.1 * (case keyword_level of high \<Rightarrow> 0.1 | medium \<Rightarrow> 0.05 | low \<Rightarrow> 0.0)))"

text \<open>The rule by which the self-test judges one case, from its validation.\<close>

definition judged_pass :: "bool \<Rightarrow> validation_result \<Rightarrow> bool" where
  "judged_pass expected v \<longleftrightarrow>
     (expected \<and> is_valid v \<and> quality_score v \<ge> 0.5)
     \<or> (\<not> expected \<and> (\<not> is_valid v \<or> quality_score v < 0.5))"

definition case_validation :: "unicode_db \<Rightarrow> test_case \<Rightarrow> validation_result" where
  "case_validation U tc =
     validate_answer U (get_or (tc_question tc) []) (get_or (tc_actual_answer tc) [])
       (get_or (tc_sources tc) []) (get_or (tc_confidence tc) 0.5)"

definition case_passes :: "unicode_db \<Rightarrow> test_case \<Rightarrow> bool" where
  "case_passes U tc = judged_pass (get_or (tc_expected_validation tc) True) (case_validation U tc)"

text \<open>
  The evidence of the results whose status is \<open>success\<close>, in the order of the
  results.
\<close>

definition successful_evidence :: "SourceSearchResult list \<Rightarrow> MultiSourceInfo list" where
  "successful_evidence rs = concat (map results (filter (\<lambda>r. status r = success) rs))"



text \<open>
  The constraint \<open>Field(ge=0.0, le=1.0)\<close> that pydantic enforces on the scores of the rows
  and on the weights and the threshold of a request.
\<close>

definition unit_interval :: "real \<Rightarrow> bool" where
  "unit_interval x \<longleftrightarrow> 0 \<le> x \<and> x \<le> 1"

definition valid_run :: "search_run \<Rightarrow> bool" where
  "valid_run run \<longleftrightarrow>
     (case rag_reply run of Returned rows \<Rightarrow> list_all (\<lambda>r. unit_interval (si_relevance_score r)) rows
                          | Raised e \<Rightarrow> True)
     \<and> (case db_reply run of Returned rows \<Rightarrow> list_all (\<lambda>r. unit_interval (similarity r)) rows
                            | Raised e \<Rightarrow> True)
     \<and> (case web_reply run of
           Returned rows \<Rightarrow> list_all (\<lambda>r. unit_interval (get_or (w_relevance_score r) 0.5)) rows
         | Raised e \<Rightarrow> True)"

definition valid_weights :: "SourceWeight \<Rightarrow> bool" where
  "valid_weights w \<longleftrightarrow>
     unit_interval (documents w) \<and> unit_interval (database w) \<and> unit_interval (web_search w)"

section \<open>Example inputs\<close>

text \<open>
  The answer \<^verbatim>\<open>U+CD94 U+C815 U+B429 U+B2C8 U+B2E4\<close>, a single hedging
  phrase, and a source with the same text.
\<close>

definition hedging_answer :: pystr where
  "hedging_answer = [52628, 51221, 46121, 45768, 45796]"

definition hedging_sources :: "source_dict list" where
  "hedging_sources = [[''content'' \<mapsto> hedging_answer]]"

text \<open>
  The answers \<^verbatim>\<open>abc def\<close> and \<^verbatim>\<open>abc\<close>, and
  sources with the contents \<^verbatim>\<open>abc\<close> and
  \<^verbatim>\<open>ab\<close>.
\<close>

definition abc_def_answer :: pystr where
  "abc_def_answer = [97, 98, 99, 32, 100, 101, 102]"

definition abc_answer :: pystr where
  "abc_answer = [97, 98, 99]"

definition abc_sources :: "source_dict list" where
  "abc_sources = [[''content'' \<mapsto> [97, 98, 99]]]"

definition ab_sources :: "source_dict list" where
  "ab_sources = [[''content'' \<mapsto> [97, 98]]]"

text \<open>
  Two self-test cases: the hedging answer with its source, expected valid, and the answer
  \<^verbatim>\<open>abc\<close> with no other key, which is too short to be valid.
\<close>

definition selftest_cases :: "test_case list" where
  "selftest_cases =
     [ \<lparr> tc_question = Some [], tc_expected_answer = None,
         tc_actual_answer = Some hedging_answer, tc_expected_validation = Some True,
         tc_sources = Some hedging_sources, tc_confidence = Some 0.8 \<rparr>,
       \<lparr> tc_question = None, tc_expected_answer = None,
         tc_actual_answer = Some abc_answer, tc_expected_validation = None,
         tc_sources = None, tc_confidence = None \<rparr> ]"

text \<open>
  A request for all three sources with web search enabled, rows for each source, and runs
  in which every search succeeds, in which the document search raises \<^verbatim>\<open>boom\<close> after
  5 ms, in which it raises an exception with an empty description, and in which such an
  exception leaves the coroutine of the document search.
\<close>

definition three_source_request :: MultiSourceQueryRequest where
  "three_source_request =
     \<lparr> question = hedging_answer, user_role = ENGINEER,
       data_sources = [DOCUMENTS, DATABASE, WEB_SEARCH], document_filter = None,
       top_k_per_source = 3, enable_web_search = True, web_search_query = None,
       combine_results = True \<rparr>"

definition document_row :: SourceInfo where
  "document_row =
     \<lparr> document_id = [100, 49], si_document_name = [100, 100, 114, 53],
       si_page_number = Some 1, si_section = None, si_relevance_score = 0.9,
       content_preview = Some hedging_answer \<rparr>"

definition database_row :: db_row where
  "database_row =
     \<lparr> row_id = [114, 49], row_content = [97, 98, 99], similarity = 0.5, row_metadata = [] \<rparr>"

definition web_result_row :: web_row where
  "web_result_row =
     \<lparr> w_url = Some [117], w_content = Some [100, 101, 102], w_relevance_score = Some 0.7,
       w_source = None, w_title = None, w_type = None \<rparr>"

definition ok_run :: search_run where
  "ok_run =
     \<lparr> escaped = None, rag_reply = Returned [document_row], db_reply = Returned [database_row],
       web_reply = Returned [web_result_row], elapsed_ms = 7 \<rparr>"

definition failing_run :: search_run where
  "failing_run = ok_run\<lparr> rag_reply := Raised [98, 111, 111, 109], elapsed_ms := 5 \<rparr>"



definition ok_runs :: "nat \<Rightarrow> search_run" where
  "ok_runs i = ok_run"

definition failing_runs :: "nat \<Rightarrow> search_run" where
  "failing_runs i = (if i = 0 then failing_run else ok_run)"



text \<open>
  A request for the documents alone, a request for the documents and a web search that is
  not enabled, and an advanced request with the default weights and the threshold 0.3.
\<close>

definition single_source_request :: MultiSourceQueryRequest where
  "single_source_request = three_source_request\<lparr> data_sources := [DOCUMENTS] \<rparr>"

definition web_disabled_request :: MultiSourceQueryRequest where
  "web_disabled_request =
     three_source_request\<lparr> data_sources := [DOCUMENTS, WEB_SEARCH], enable_web_search := False \<rparr>"

definition weighted_request :: AdvancedMultiSourceRequest where
  "weighted_request =
     \<lparr> adv_question = hedging_answer, adv_user_role = ENGINEER,
       adv_data_sources = [DOCUMENTS, DATABASE, WEB_SEARCH],
       source_weights = Some \<lparr> documents = 0.6, database = 0.3, web_search = 0.1 \<rparr>,
       adv_top_k_per_source = 3, min_relevance_threshold = 0.3,
       adv_enable_web_search = True, web_search_engine = None, manufacturing_focus = True,
       adv_document_filter = None \<rparr>"

section \<open>Properties of the quality validation service\<close>

subsection \<open>The hallucination check\<close>

lemma scan_indicators_found:
  "indicators_found (scan_indicators U a ps r) =
     indicators_found r @ filter (\<lambda>p. re_search U p a) ps"
  by (induction ps arbitrary: r) simp_all

lemma scan_indicators_score:
  "risk_score (scan_indicators U a ps r) =
     risk_score r + 0.2 * real (length (filter (\<lambda>p. re_search U p a) ps))"
  by (induction ps arbitrary: r) (simp_all add: algebra_simps)

lemma check_hallucination_found:
  "indicators_found (check_hallucination U a) = matched_indicators U a"
  by (simp add: check_hallucination_def Let_def scan_indicators_found matched_indicators_def)

lemma check_hallucination_score:
  "risk_score (check_hallucination U a) = 0.2 * real (length (matched_indicators U a))"
  by (simp add: check_hallucination_def Let_def scan_indicators_score matched_indicators_def)

text \<open>Two matching patterns are needed for a medium risk, three for a high one.\<close>

lemma check_hallucination_level:
  "risk_level (check_hallucination U a) =
     (if 3 \<le> length (matched_indicators U a) then high
      else if 2 \<le> length (matched_indicators U a) then medium else low)"
proof -
  define n where "n = length (matched_indicators U a)"
  have s: "risk_score (scan_indicators U a hallucination_indicators
             \<lparr> risk_level = low, indicators_found = [], risk_score = 0 \<rparr>) = 0.2 * real n"
    by (simp add: scan_indicators_score matched_indicators_def n_def)
  have h: "(0.2 * real n \<ge> 0.6) = (3 \<le> n)" by auto
  have m: "(0.2 * real n \<ge> 0.3) = (2 \<le> n)" by auto
  show ?thesis
    unfolding check_hallucination_def Let_def s h m n_def[symmetric] by simp
qed

subsection \<open>The fields of a validation\<close>

lemma validate_answer_hallucination:
  "details_hallucination (validate_answer U q a s c) = check_hallucination U a"
  by (simp add: validate_answer_def Let_def)

lemma validate_answer_source:
  "details_source_consistency (validate_answer U q a s c) = validate_source_consistency U a s"
  by (simp add: validate_answer_def Let_def)

lemma validate_answer_keywords:
  "details_confidence_keywords (validate_answer U q a s c) = analyze_confidence_keywords a"
  by (simp add: validate_answer_def Let_def)

lemma validate_answer_basic:
  "details_basic (validate_answer U q a s c) = validate_basic_answer U a"
  by (simp add: validate_answer_def Let_def)

lemma validate_answer_is_valid:
  "is_valid (validate_answer U q a s c) = basic_is_valid (validate_basic_answer U a)"
  by (simp add: validate_answer_def Let_def)

lemma validate_answer_quality:
  "quality_score (validate_answer U q a s c) =
     calculate_quality_score (validate_basic_answer U a) (check_hallucination U a)
       (validate_source_consistency U a s) (analyze_confidence_keywords a)"
  by (simp add: validate_answer_def Let_def)

lemma validate_answer_confidence:
  "confidence_adjusted (validate_answer U q a s c) =
     c * (if risk_level (check_hallucination U a) = high then 0.5 else 1)
       * (if is_consistent (validate_source_consistency U a s) then 1 else 0.7)"
  by (simp add: validate_answer_def Let_def)

subsection \<open>A single hedging phrase\<close>

text \<open>
  Claim C1, as the code has it: an answer that matches exactly one hallucination-indicator
  pattern scores 0.2, which is below the threshold 0.3 of a medium risk, so its risk level
  is low; the adjusted confidence is the caller's confidence, multiplied by 0.7 only when
  the source-consistency check finds the answer inconsistent.
\<close>

theorem C1_single_indicator_low_risk:
  assumes "length (matched_indicators U a) = 1"
  shows "risk_level (details_hallucination (validate_answer U q a s c)) = low
       \<and> risk_score (details_hallucination (validate_answer U q a s c)) = 0.2
       \<and> confidence_adjusted (validate_answer U q a s c) =
           (if is_consistent (details_source_consistency (validate_answer U q a s c))
            then c else c * 0.7)"
  using assms
  by (simp add: validate_answer_hallucination validate_answer_source validate_answer_confidence
      check_hallucination_level check_hallucination_score)

theorem C1_single_indicator_low_risk_witness:
  "length (matched_indicators ascii_hangul hedging_answer) = 1
   \<and> risk_level (details_hallucination
        (validate_answer ascii_hangul [] hedging_answer hedging_sources 0.8)) = low
   \<and> confidence_adjusted (validate_answer ascii_hangul [] hedging_answer hedging_sources 0.8) = 0.8"
proof -
  have h: "length (matched_indicators ascii_hangul hedging_answer) = 1"
    by code_simp
  have k: "is_consistent (details_source_consistency
             (validate_answer ascii_hangul [] hedging_answer hedging_sources 0.8))"
    by code_simp
  show ?thesis
    using h k C1_single_indicator_low_risk [OF h, of "[]" hedging_sources "0.8"] by simp
qed

text \<open>
  The hedging answer matches one pattern only, its risk level is low and its confidence
  stays 0.8, above 0.7 times 0.8.
\<close>

theorem C1_hedging_phrase_counterexample:
  "indicators_found (details_hallucination
      (validate_answer ascii_hangul [] hedging_answer hedging_sources 0.8))
     = [lit [52628, 51221] @ [DotStar] @ lit [46121, 45768, 45796]]
   \<and> \<not> (risk_level (details_hallucination
            (validate_answer ascii_hangul [] hedging_answer hedging_sources 0.8)) \<noteq> low
        \<and> confidence_adjusted (validate_answer ascii_hangul [] hedging_answer hedging_sources 0.8)
            \<le> 0.7 * 0.8)"
  by code_simp

subsection \<open>The source-consistency check and the composite score\<close>

lemma collect_source_keywords_eq:
  "collect_source_keywords U srcs acc = acc \<union> source_words U srcs"
  by (induction srcs arbitrary: acc) (auto simp: source_words_def split: option.splits)

lemma validate_source_consistency_eq:
  "validate_source_consistency U a srcs =
     (if srcs = [] then \<lparr> is_consistent = False, consistency_score = 0, source_coverage = 0 \<rparr>
      else if answer_words U a \<noteq> {} \<and> source_words U srcs \<noteq> {}
      then (if overlap_ratio U a srcs < 0.3
            then \<lparr> is_consistent = False, consistency_score = overlap_ratio U a srcs,
                   source_coverage = overlap_ratio U a srcs \<rparr>
            else \<lparr> is_consistent = True, consistency_score = 1,
                   source_coverage = overlap_ratio U a srcs \<rparr>)
      else \<lparr> is_consistent = True, consistency_score = 1, source_coverage = 0 \<rparr>)"
  by (simp add: validate_source_consistency_def Let_def collect_source_keywords_eq
      answer_words_def[symmetric] overlap_ratio_def)

lemma overlap_ratio_range: "0 \<le> overlap_ratio U a srcs \<and> overlap_ratio U a srcs \<le> 1"
proof -
  have f: "finite (answer_words U a)" by (simp add: answer_words_def)
  have le: "card (answer_words U a \<inter> source_words U srcs) \<le> card (answer_words U a)"
    by (rule card_mono[OF f]) simp
  show ?thesis
  proof (cases "card (answer_words U a) = 0")
    case True
    then show ?thesis by (simp add: overlap_ratio_def)
  next
    case False
    with le show ?thesis by (simp add: overlap_ratio_def divide_le_eq_1)
  qed
qed

lemma consistency_score_range:
  "0 \<le> consistency_score (validate_source_consistency U a srcs)
   \<and> consistency_score (validate_source_consistency U a srcs) \<le> 1"
  using overlap_ratio_range [of U a srcs] by (simp add: validate_source_consistency_eq)

text \<open>
  Claim C2, as the code has it: the quality score is the sum of 0.4 for a valid answer, of
  the table value of the hallucination level (0.3, 0.15 or 0, added as it is and not
  multiplied by 0.3), of 0.2 times the consistency score that the source-consistency check
  reports, and of the table value of the keyword level (0.1, 0.05 or 0, added as it is).
  The four terms are at most 0.4, 0.3, 0.2 and 0.1, so the score lies between 0 and 1.
\<close>

theorem C2_quality_score_composite:
  "quality_score (validate_answer U q a srcs c) =
     (if is_valid (validate_answer U q a srcs c) then 0.4 else 0)
     + (case risk_level (details_hallucination (validate_answer U q a srcs c)) of
          low \<Rightarrow> 0.3 | medium \<Rightarrow> 0.15 | high \<Rightarrow> 0.0)
     + 0.2 * consistency_score (details_source_consistency (validate_answer U q a srcs c))
     + (case confidence_level (details_confidence_keywords (validate_answer U q a srcs c)) of
          high \<Rightarrow> 0.1 | medium \<Rightarrow> 0.05 | low \<Rightarrow> 0.0)
   \<and> 0 \<le> quality_score (validate_answer U q a srcs c)
   \<and> quality_score (validate_answer U q a srcs c) \<le> 1"
proof -
  let ?cs = "consistency_score (validate_source_consistency U a srcs)"
  have r: "0 \<le> ?cs" "?cs \<le> 1" using consistency_score_range [of U a srcs] by simp_all
  show ?thesis
    using r
    by (cases "risk_level (check_hallucination U a)";
        cases "confidence_level (analyze_confidence_keywords a)")
       (simp_all add: validate_answer_quality validate_answer_is_valid
          validate_answer_hallucination validate_answer_source validate_answer_keywords
          calculate_quality_score_def Let_def hallucination_score_def confidence_score_def)
qed

theorem C2_quality_score_composite_witness:
  "quality_score (validate_answer ascii_hangul [] hedging_answer hedging_sources 0.8) = 0.9"
proof -
  have v: "is_valid (validate_answer ascii_hangul [] hedging_answer hedging_sources 0.8) = True"
    by code_simp
  have h: "risk_level (details_hallucination
             (validate_answer ascii_hangul [] hedging_answer hedging_sources 0.8)) = low"
    by code_simp
  have s: "consistency_score (details_source_consistency
             (validate_answer ascii_hangul [] hedging_answer hedging_sources 0.8)) = 1"
    by code_simp
  have k: "confidence_level (details_confidence_keywords
             (validate_answer ascii_hangul [] hedging_answer hedging_sources 0.8)) = low"
    by code_simp
  have e: "quality_score (validate_answer ascii_hangul [] hedging_answer hedging_sources 0.8) =
     (if is_valid (validate_answer ascii_hangul [] hedging_answer hedging_sources 0.8)
      then 0.4 else 0)
     + (case risk_level (details_hallucination
          (validate_answer ascii_hangul [] hedging_answer hedging_sources 0.8)) of
          low \<Rightarrow> 0.3 | medium \<Rightarrow> 0.15 | high \<Rightarrow> 0.0)
     + 0.2 * consistency_score (details_source_consistency
          (validate_answer ascii_hangul [] hedging_answer hedging_sources 0.8))
     + (case confidence_level (details_confidence_keywords
          (validate_answer ascii_hangul [] hedging_answer hedging_sources 0.8)) of
          high \<Rightarrow> 0.1 | medium \<Rightarrow> 0.05 | low \<Rightarrow> 0.0)"
    using C2_quality_score_composite [of ascii_hangul "[]" hedging_answer hedging_sources "0.8"]
    by (rule conjunct1)
  show ?thesis unfolding e v h s k by simp
qed

text \<open>
  For the hedging answer the code gives 0.4 + 0.3 + 0.2 = 0.9, the weighted formula of the
  claim 0.4 + 0.09 + 0.2 = 0.69. For the answer \<^verbatim>\<open>abc def\<close> with the source \<^verbatim>\<open>abc\<close> the
  overlap ratio is 1/2 and the consistency score is 1: the code gives
  0.4 + 0.3 + 0.2 + 0.05 = 0.95, the formula of the claim 0.4 + 0.09 + 0.1 + 0.005 = 0.595.
\<close>

theorem C2_weighted_formula_counterexample:
  "quality_score (validate_answer ascii_hangul [] hedging_answer hedging_sources 0.8) = 0.9
   \<and> spec_quality_score
        (is_valid (validate_answer ascii_hangul [] hedging_answer hedging_sources 0.8))
        (risk_level (details_hallucination
           (validate_answer ascii_hangul [] hedging_answer hedging_sources 0.8)))
        (overlap_ratio ascii_hangul hedging_answer hedging_sources)
        (confidence_level (details_confidence_keywords
           (validate_answer ascii_hangul [] hedging_answer hedging_sources 0.8))) = 0.69
   \<and> quality_score (validate_answer ascii_hangul [] abc_def_answer abc_sources 0.8) = 0.95
   \<and> overlap_ratio ascii_hangul abc_def_answer abc_sources = 0.5
   \<and> spec_quality_score
        (is_valid (validate_answer ascii_hangul [] abc_def_answer abc_sources 0.8))
        (risk_level (details_hallucination
           (validate_answer ascii_hangul [] abc_def_answer abc_sources 0.8)))
        (overlap_ratio ascii_hangul abc_def_answer abc_sources)
        (confidence_level (details_confidence_keywords
           (validate_answer ascii_hangul [] abc_def_answer abc_sources 0.8))) = 0.595"
  by code_simp

text \<open>
  Claim C6, as the code has it: with no sources the check reports an inconsistent answer
  with consistency score 0. With sources, the overlap ratio is computed only when both the
  answer and the sources have a word; if it is below 0.3 the answer is inconsistent, the
  consistency score is the ratio and the confidence is multiplied by 0.7; otherwise the
  answer is consistent with consistency score 1, and the ratio is reported as the source
  coverage only.
\<close>

theorem C6_source_consistency:
  "details_source_consistency (validate_answer U q a srcs c) =
     (if srcs = [] then \<lparr> is_consistent = False, consistency_score = 0, source_coverage = 0 \<rparr>
      else if answer_words U a \<noteq> {} \<and> source_words U srcs \<noteq> {}
      then (if overlap_ratio U a srcs < 0.3
            then \<lparr> is_consistent = False, consistency_score = overlap_ratio U a srcs,
                   source_coverage = overlap_ratio U a srcs \<rparr>
            else \<lparr> is_consistent = True, consistency_score = 1,
                   source_coverage = overlap_ratio U a srcs \<rparr>)
      else \<lparr> is_consistent = True, consistency_score = 1, source_coverage = 0 \<rparr>)
   \<and> confidence_adjusted (validate_answer U q a srcs c) =
       (if risk_level (details_hallucination (validate_answer U q a srcs c)) = high
        then c * 0.5 else c)
       * (if is_consistent (details_source_consistency (validate_answer U q a srcs c))
          then 1 else 0.7)"
  by (simp add: validate_answer_source validate_answer_hallucination validate_answer_confidence
      validate_source_consistency_eq)

theorem C6_source_consistency_witness:
  "details_source_consistency (validate_answer ascii_hangul [] abc_def_answer abc_sources 0.8)
     = \<lparr> is_consistent = True, consistency_score = 1, source_coverage = 0.5 \<rparr>"
proof -
  have n: "abc_sources \<noteq> []" by (simp add: abc_sources_def)
  have w: "answer_words ascii_hangul abc_def_answer \<noteq> {} \<and> source_words ascii_hangul abc_sources \<noteq> {}"
    by code_simp
  have r: "overlap_ratio ascii_hangul abc_def_answer abc_sources = 0.5"
    by code_simp
  show ?thesis
    using C6_source_consistency [of ascii_hangul "[]" abc_def_answer abc_sources "0.8"]
    by (simp add: n w r)
qed

text \<open>
  With the ratio 1/2 the consistency score is 1, not the ratio; and with a source that has
  no word the ratio is 0, yet the answer is consistent and keeps its confidence.
\<close>

theorem C6_overlap_ratio_counterexample:
  "abc_sources \<noteq> []
   \<and> overlap_ratio ascii_hangul abc_def_answer abc_sources = 0.5
   \<and> consistency_score (details_source_consistency
        (validate_answer ascii_hangul [] abc_def_answer abc_sources 0.8)) = 1
   \<and> ab_sources \<noteq> []
   \<and> overlap_ratio ascii_hangul abc_answer ab_sources = 0
   \<and> is_consistent (details_source_consistency
        (validate_answer ascii_hangul [] abc_answer ab_sources 0.8))
   \<and> confidence_adjusted (validate_answer ascii_hangul [] abc_answer ab_sources 0.8) = 0.8"
  by code_simp

section \<open>Properties of the self-test\<close>

lemma run_case_passed: "passed (run_case U i tc) = case_passes U tc"
  by (auto simp: run_case_def Let_def case_passes_def judged_pass_def case_validation_def)

lemma run_case_validation: "tr_validation_result (run_case U i tc) = case_validation U tc"
  by (simp add: run_case_def Let_def case_validation_def)

lemma selftest_loop_results:
  "map passed (test_results (selftest_loop U i tcs r)) =
     map passed (test_results r) @ map (case_passes U) tcs"
  by (induction tcs arbitrary: i r) (simp_all add: Let_def run_case_passed)

lemma selftest_loop_validations:
  "map tr_validation_result (test_results (selftest_loop U i tcs r)) =
     map tr_validation_result (test_results r) @ map (case_validation U) tcs"
  by (induction tcs arbitrary: i r) (simp_all add: Let_def run_case_validation)

lemma selftest_loop_passed_count:
  "passed_count (selftest_loop U i tcs r) =
     passed_count r + length (filter (case_passes U) tcs)"
  by (induction tcs arbitrary: i r) (simp_all add: Let_def run_case_passed)

lemma selftest_loop_failed_count:
  "failed_count (selftest_loop U i tcs r) =
     failed_count r + length (filter (\<lambda>tc. \<not> case_passes U tc) tcs)"
  by (induction tcs arbitrary: i r) (simp_all add: Let_def run_case_passed)

lemma selftest_loop_total_tests:
  "total_tests (selftest_loop U i tcs r) = total_tests r"
  by (induction tcs arbitrary: i r) (simp_all add: Let_def)

text \<open>
  Claim C9: the self-test judges every case by the rule \<open>judged_pass\<close> on the validation
  of that case, counts the cases, the passed and the failed ones, and reports the share of
  the passed cases, which is 0 for an empty list.
\<close>

theorem C9_run_selftest:
  "total_tests (run_selftest U tcs now) = length tcs
   \<and> map tr_validation_result (test_results (run_selftest U tcs now)) = map (case_validation U) tcs
   \<and> map passed (test_results (run_selftest U tcs now)) = map (case_passes U) tcs
   \<and> passed_count (run_selftest U tcs now) = length (filter (case_passes U) tcs)
   \<and> failed_count (run_selftest U tcs now) = length tcs - length (filter (case_passes U) tcs)
   \<and> overall_score (run_selftest U tcs now) =
       (if tcs = [] then 0
        else real (length (filter (case_passes U) tcs)) / real (length tcs))"
proof -
  have f: "length (filter (\<lambda>tc. \<not> case_passes U tc) tcs) =
             length tcs - length (filter (case_passes U) tcs)"
    using sum_length_filter_compl [of "case_passes U" tcs] by simp
  show ?thesis
    by (simp add: run_selftest_def Let_def selftest_loop_results selftest_loop_validations
        selftest_loop_passed_count selftest_loop_failed_count selftest_loop_total_tests f)
qed

theorem C9_run_selftest_witness:
  "total_tests (run_selftest ascii_hangul selftest_cases []) = 2
   \<and> map passed (test_results (run_selftest ascii_hangul selftest_cases [])) = [True, False]
   \<and> passed_count (run_selftest ascii_hangul selftest_cases []) = 1
   \<and> failed_count (run_selftest ascii_hangul selftest_cases []) = 1
   \<and> overall_score (run_selftest ascii_hangul selftest_cases []) = 1 / 2"
proof -
  have p: "map (case_passes ascii_hangul) selftest_cases = [True, False]"
    by code_simp
  have n: "length (filter (case_passes ascii_hangul) selftest_cases) = 1"
    by code_simp
  have l: "length selftest_cases = 2" "selftest_cases \<noteq> []"
    by (simp_all add: selftest_cases_def)
  show ?thesis
    using C9_run_selftest [of ascii_hangul selftest_cases "[]"]
    by (simp add: p n l)
qed

section \<open>Properties of the multi-source service\<close>

subsection \<open>The orchestrator\<close>

lemma gather_tasks_length: "length (gather_tasks req runs i ds) = length ds"
  by (induction ds arbitrary: i) simp_all

lemma gather_tasks_nth:
  "j < length ds \<Longrightarrow> gather_tasks req runs i ds ! j = search_task req (ds ! j) (runs (i + j))"
proof (induction ds arbitrary: i j)
  case Nil
  then show ?case by simp
next
  case (Cons d ds)
  then show ?case by (cases j) simp_all
qed

lemma process_results_length: "length (process_results req i rs) = length rs"
  by (induction rs arbitrary: i) simp_all

lemma process_results_nth:
  "j < length rs \<Longrightarrow>
   process_results req i rs ! j =
     (case rs ! j of Inl e \<Rightarrow> failed_result (data_sources req ! (i + j)) 0 e | Inr x \<Rightarrow> x)"
proof (induction rs arbitrary: i j)
  case Nil
  then show ?case by simp
next
  case (Cons r rs)
  then show ?case by (cases j) (simp_all split: sum.splits)
qed

lemma execute_length:
  "length (execute_multi_source_search req runs) = length (data_sources req)"
  by (cases "data_sources req")
     (simp_all add: execute_multi_source_search_def Let_def process_results_length
        gather_tasks_length)

lemma execute_nth:
  assumes "j < length (data_sources req)"
  shows "execute_multi_source_search req runs ! j =
     (case search_task req (data_sources req ! j) (runs j) of
        Inl e \<Rightarrow> failed_result (data_sources req ! j) 0 e
      | Inr x \<Rightarrow> x)"
proof -
  from assms have ne: "gather_tasks req runs 0 (data_sources req) \<noteq> []"
    by (cases "data_sources req") simp_all
  from assms have j: "j < length (gather_tasks req runs 0 (data_sources req))"
    by (simp add: gather_tasks_length)
  show ?thesis
    using assms
    by (simp add: execute_multi_source_search_def Let_def ne process_results_nth [OF j]
        gather_tasks_nth split: sum.splits)
qed








subsection \<open>Fusion\<close>

lemma collect_sources_evidence:
  "fst (collect_sources rs (acc, m)) = acc @ successful_evidence rs"
  by (induction rs arbitrary: acc m) (simp_all add: successful_evidence_def)

lemma find_append_cases:
  "find P (xs @ ys) = (case find P xs of None \<Rightarrow> find P ys | Some x \<Rightarrow> Some x)"
  by (induction xs) simp_all

lemma collect_sources_counts:
  "snd (collect_sources rs (acc, m)) t =
     (case find (\<lambda>r. status r = success \<and> result_source_type r = t) (rev rs) of
        None \<Rightarrow> m t
      | Some r \<Rightarrow> Some (length (results r)))"
proof (induction rs arbitrary: acc m)
  case Nil
  then show ?case by simp
next
  case (Cons r rs)
  show ?case
    by (cases "find (\<lambda>r. status r = success \<and> result_source_type r = t) (rev rs)")
       (simp_all add: Cons.IH find_append_cases)
qed

lemma sort_by_relevance_sorted:
  "sorted_wrt (\<lambda>x y. relevance_score x \<ge> relevance_score y) (sort_by_relevance xs)"
proof -
  have "sorted (map (\<lambda>x. - relevance_score x) (sort_by_relevance xs))"
    by (simp add: sort_by_relevance_def)
  then show ?thesis by (simp add: sorted_map)
qed

lemma sort_by_relevance_set: "set (sort_by_relevance xs) = set xs"
  by (simp add: sort_by_relevance_def)

lemma sort_by_relevance_length: "length (sort_by_relevance xs) = length xs"
  by (simp add: sort_by_relevance_def)

lemma sorted_wrt_take: "sorted_wrt P xs \<Longrightarrow> sorted_wrt P (take n xs)"
  by (metis append_take_drop_id sorted_wrt_append)

lemma combine_sources:
  "sources (combine_and_generate_answer U req rs a m) =
     take 10 (sort_by_relevance (successful_evidence rs))"
  using collect_sources_evidence [of rs "[]" Map.empty]
  by (simp add: combine_and_generate_answer_def Let_def split_beta)

lemma combine_total:
  "total_sources_searched (combine_and_generate_answer U req rs a m) =
     length (successful_evidence rs)"
  using collect_sources_evidence [of rs "[]" Map.empty]
  by (simp add: combine_and_generate_answer_def Let_def split_beta sort_by_relevance_length)

lemma combine_counts:
  "sources_by_type (combine_and_generate_answer U req rs a m) t =
     map_option (\<lambda>r. length (results r))
       (find (\<lambda>r. status r = success \<and> result_source_type r = t) (rev rs))"
  using collect_sources_counts [of rs "[]" Map.empty t]
  by (simp add: combine_and_generate_answer_def Let_def split_beta split: option.splits)

lemma combine_strategy:
  "search_strategy (combine_and_generate_answer U req rs a m) = ''balanced''"
  by (simp add: combine_and_generate_answer_def Let_def split_beta)


lemma query_combined:
  "combine_results req \<Longrightarrow>
   query U req runs a m t =
     Combined ((combine_and_generate_answer U req (execute_multi_source_search req runs) a m)
                 \<lparr> query_time_ms := t \<rparr>)"
  by (simp add: query_def Let_def)

text \<open>
  Claim C4: the sources of a combined response are in descending order of the relevance
  score, all of them are evidence of a result with status \<open>success\<close>, and there are at
  most ten.
\<close>

theorem C4_sources_sorted_subset_capped:
  assumes "combine_results req"
  shows "\<exists>R. query U req runs a m t = Combined R
           \<and> sorted_wrt (\<lambda>x y. relevance_score x \<ge> relevance_score y) (sources R)
           \<and> set (sources R) \<subseteq> set (successful_evidence (execute_multi_source_search req runs))
           \<and> length (sources R) \<le> 10"
proof -
  let ?R = "(combine_and_generate_answer U req (execute_multi_source_search req runs) a m)
              \<lparr> query_time_ms := t \<rparr>"
  have "sorted_wrt (\<lambda>x y. relevance_score x \<ge> relevance_score y) (sources ?R)"
    by (simp add: combine_sources sorted_wrt_take sort_by_relevance_sorted)
  moreover have "set (sources ?R) \<subseteq> set (successful_evidence (execute_multi_source_search req runs))"
    using set_take_subset [of 10 "sort_by_relevance (successful_evidence (execute_multi_source_search req runs))"]
    by (simp add: combine_sources sort_by_relevance_set)
  moreover have "length (sources ?R) \<le> 10"
    by (simp add: combine_sources)
  ultimately show ?thesis
    using query_combined [OF assms] by blast
qed

theorem C4_sources_sorted_subset_capped_witness:
  "combine_results three_source_request
   \<and> map relevance_score (successful_evidence
         (execute_multi_source_search three_source_request ok_runs)) = [0.9, 0.5, 0.7]
   \<and> (\<exists>R. query ascii_hangul three_source_request ok_runs hedging_answer [] 12 = Combined R
          \<and> sorted_wrt (\<lambda>x y. relevance_score x \<ge> relevance_score y) (sources R)
          \<and> set (sources R)
              \<subseteq> set (successful_evidence
                    (execute_multi_source_search three_source_request ok_runs))
          \<and> length (sources R) \<le> 10)"
proof -
  have h: "combine_results three_source_request"
    by (simp add: three_source_request_def)
  have e: "map relevance_score (successful_evidence
         (execute_multi_source_search three_source_request ok_runs)) = [0.9, 0.5, 0.7]"
    by code_simp
  show ?thesis
    using h e
      C4_sources_sorted_subset_capped [OF h, of ascii_hangul ok_runs hedging_answer "[]" 12]
    by simp
qed

text \<open>
  Claim C7, as the code has it: the fused evidence is the evidence of the results with
  status \<open>success\<close> only, and the per-type counts have an entry for a source type exactly
  when a result of that type has status \<open>success\<close>, namely the number of items of the last
  such result; a source whose result is failed or disabled has no entry in the counts.
\<close>

theorem C7_success_only_and_counts:
  "sources (combine_and_generate_answer U req rs a m) =
     take 10 (sort_by_relevance (successful_evidence rs))
   \<and> total_sources_searched (combine_and_generate_answer U req rs a m) =
       length (successful_evidence rs)
   \<and> sources_by_type (combine_and_generate_answer U req rs a m) t =
       map_option (\<lambda>r. length (results r))
         (find (\<lambda>r. status r = success \<and> result_source_type r = t) (rev rs))
   \<and> (sources_by_type (combine_and_generate_answer U req rs a m) t = None)
       = (\<not> (\<exists>r \<in> set rs. status r = success \<and> result_source_type r = t))"
  by (auto simp: combine_sources combine_total combine_counts find_None_iff)

theorem C7_success_only_and_counts_witness:
  "sources_by_type (combine_and_generate_answer ascii_hangul three_source_request
       (execute_multi_source_search three_source_request ok_runs) hedging_answer []) DATABASE
     = Some 1
   \<and> total_sources_searched (combine_and_generate_answer ascii_hangul three_source_request
       (execute_multi_source_search three_source_request ok_runs) hedging_answer []) = 3"
proof -
  have f: "map_option (\<lambda>r. length (results r))
             (find (\<lambda>r. status r = success \<and> result_source_type r = DATABASE)
                (rev (execute_multi_source_search three_source_request ok_runs))) = Some 1"
    by code_simp
  have l: "length (successful_evidence
             (execute_multi_source_search three_source_request ok_runs)) = 3"
    by code_simp
  show ?thesis
    using C7_success_only_and_counts [of ascii_hangul three_source_request
        "execute_multi_source_search three_source_request ok_runs" hedging_answer "[]" DATABASE]
    by (simp add: f l)
qed

text \<open>
  The documents and the web search are requested; the first search fails and the second
  is disabled, and neither source type has an entry in the counts.
\<close>

theorem C7_missing_count_counterexample:
  "data_sources web_disabled_request = [DOCUMENTS, WEB_SEARCH]
   \<and> map status (execute_multi_source_search web_disabled_request failing_runs)
       = [failed, disabled]
   \<and> sources_by_type (combine_and_generate_answer ascii_hangul web_disabled_request
         (execute_multi_source_search web_disabled_request failing_runs) hedging_answer [])
         DOCUMENTS = None
   \<and> sources_by_type (combine_and_generate_answer ascii_hangul web_disabled_request
         (execute_multi_source_search web_disabled_request failing_runs) hedging_answer [])
         WEB_SEARCH = None"
  by code_simp

text \<open>
  Claim C8 fails on the code: the heuristic gives \<open>fast\<close> for a request with one source and
  \<open>comprehensive\<close> for a request with a web search, and the response reports \<open>balanced\<close>
  for both.
\<close>

theorem C8_strategy_label_is_constant:
  "determine_search_strategy single_source_request = ''fast''
   \<and> (case query ascii_hangul single_source_request ok_runs hedging_answer [] 12 of
         Combined R \<Rightarrow> search_strategy R | Individual x \<Rightarrow> []) = ''balanced''
   \<and> determine_search_strategy three_source_request = ''comprehensive''
   \<and> (case query ascii_hangul three_source_request ok_runs hedging_answer [] 12 of
         Combined R \<Rightarrow> search_strategy R | Individual x \<Rightarrow> []) = ''balanced''"
  by code_simp



subsection \<open>Weights and threshold\<close>

lemma entry_scores_valid:
  assumes "valid_run run"
  shows "\<forall>x \<in> set (results (case search_task req src run of
             Inl e \<Rightarrow> failed_result src 0 e | Inr r \<Rightarrow> r)). unit_interval (relevance_score x)"
  using assms
  by (cases src)
     (auto simp: valid_run_def search_task_def search_documents_def search_database_def
        search_web_def failed_result_def success_result_def document_item_def
        database_item_def web_item_def list_all_iff
        split: option.splits outcome.splits)

lemma execute_scores_valid:
  assumes "\<forall>i. valid_run (runs i)"
  shows "\<forall>x \<in> set (successful_evidence (execute_multi_source_search req runs)).
           unit_interval (relevance_score x)"
proof
  fix x
  assume "x \<in> set (successful_evidence (execute_multi_source_search req runs))"
  then obtain r where r: "r \<in> set (execute_multi_source_search req runs)" "x \<in> set (results r)"
    by (auto simp: successful_evidence_def)
  then obtain j where j: "j < length (data_sources req)"
      "r = execute_multi_source_search req runs ! j"
    by (metis in_set_conv_nth execute_length)
  from assms have "valid_run (runs j)" by simp
  from entry_scores_valid [OF this, where req = req and src = "data_sources req ! j"] r(2) j
  show "unit_interval (relevance_score x)"
    by (simp add: execute_nth)
qed

lemma advanced_result:
  assumes "advanced_multi_source_query U req runs a m t = Inr R"
    and "source_weights req = Some w"
  shows "R = (let B = (combine_and_generate_answer U (basic_request_of req)
                        (execute_multi_source_search (basic_request_of req) runs) a m)
                      \<lparr> query_time_ms := t \<rparr>;
                  W = sort_by_relevance (map (apply_weight w) (sources B))
              in B\<lparr> sources := (if min_relevance_threshold req > 0
                                then filter (\<lambda>x. relevance_score x \<ge> min_relevance_threshold req) W
                                else W) \<rparr>)"
proof -
  have c: "combine_results (basic_request_of req)"
    by (simp add: basic_request_of_def)
  show ?thesis
    using assms
    by (simp add: advanced_multi_source_query_def Let_def query_combined [OF c]
        apply_source_weights_def split: if_splits)
qed

text \<open>
  Claim C5: when an advanced request supplies weights, every returned item is an item of
  the combined response with its score multiplied by the weight of its source type and
  nothing else changed, the returned items are exactly those whose weighted score is not
  below the threshold, and the rest of the response is untouched. The scores of the rows,
  the weights and the threshold lie in the unit interval, as pydantic enforces.
\<close>

theorem C5_weights_then_threshold:
  assumes "advanced_multi_source_query U req runs a m t = Inr R"
    and "source_weights req = Some w"
    and "valid_weights w"
    and "unit_interval (min_relevance_threshold req)"
    and "\<forall>i. valid_run (runs i)"
  shows "\<exists>B. query U (basic_request_of req) runs a m t = Combined B
           \<and> R = B\<lparr> sources := sources R \<rparr>
           \<and> set (sources R) =
               {x \<in> (\<lambda>y. y\<lparr> relevance_score :=
                                relevance_score y * weight_map w (source_type y) \<rparr>)
                       ` set (sources B).
                  min_relevance_threshold req \<le> relevance_score x}
           \<and> (\<forall>x \<in> set (sources R). min_relevance_threshold req \<le> relevance_score x)"
proof -
  let ?B = "(combine_and_generate_answer U (basic_request_of req)
               (execute_multi_source_search (basic_request_of req) runs) a m)
             \<lparr> query_time_ms := t \<rparr>"
  let ?f = "\<lambda>y. y\<lparr> relevance_score := relevance_score y * weight_map w (source_type y) \<rparr>"
  let ?th = "min_relevance_threshold req"
  have c: "combine_results (basic_request_of req)"
    by (simp add: basic_request_of_def)
  have q: "query U (basic_request_of req) runs a m t = Combined ?B"
    by (rule query_combined [OF c])
  define S where "S = (if ?th > 0
              then filter (\<lambda>x. relevance_score x \<ge> ?th)
                     (sort_by_relevance (map (apply_weight w) (sources ?B)))
              else sort_by_relevance (map (apply_weight w) (sources ?B)))"
  have R: "R = ?B\<lparr> sources := S \<rparr>"
    using advanced_result [OF assms(1,2)] by (simp add: Let_def S_def)
  have sR: "sources R = S"
    by (subst R) simp
  have af: "apply_weight w = ?f"
    by (rule ext) (simp add: apply_weight_def)
  have wnn: "0 \<le> weight_map w s" for s
    using assms(3) by (cases s) (simp_all add: valid_weights_def unit_interval_def weight_map_def)
  have sub: "set (sources ?B)
      \<subseteq> set (successful_evidence (execute_multi_source_search (basic_request_of req) runs))"
    using set_take_subset [of 10 "sort_by_relevance (successful_evidence
        (execute_multi_source_search (basic_request_of req) runs))"]
    by (simp add: combine_sources sort_by_relevance_set)
  have nn: "0 \<le> relevance_score (?f y)" if "y \<in> set (sources ?B)" for y
  proof -
    from that sub execute_scores_valid [OF assms(5), of "basic_request_of req"]
    have "unit_interval (relevance_score y)" by blast
    then show ?thesis using wnn [of "source_type y"] by (simp add: unit_interval_def)
  qed
  have s: "set (sources R) = {x \<in> ?f ` set (sources ?B). ?th \<le> relevance_score x}"
  proof (cases "?th > 0")
    case True
    then show ?thesis
      unfolding sR S_def by (auto simp: sort_by_relevance_set af)
  next
    case False
    with assms(4) have z: "?th = 0" by (simp add: unit_interval_def)
    have "set (sources R) = ?f ` set (sources ?B)"
      unfolding sR S_def by (simp add: z sort_by_relevance_set af)
    also have "\<dots> = {x \<in> ?f ` set (sources ?B). ?th \<le> relevance_score x}"
      using nn by (auto simp: z)
    finally show ?thesis .
  qed
  have e: "R = ?B\<lparr> sources := sources R \<rparr>"
    unfolding sR by (rule R)
  from s have b: "\<forall>x \<in> set (sources R). ?th \<le> relevance_score x" by blast
  from q e s b show ?thesis by blast
qed

theorem C5_weights_then_threshold_witness:
  "(case query ascii_hangul (basic_request_of weighted_request) ok_runs hedging_answer [] 12 of
      Combined B \<Rightarrow> map relevance_score (sources B) | Individual x \<Rightarrow> []) = [0.9, 0.7, 0.5]
   \<and> (\<exists>R. advanced_multi_source_query ascii_hangul weighted_request ok_runs hedging_answer [] 12
             = Inr R
          \<and> map relevance_score (sources R) = [0.54]
          \<and> (\<forall>x \<in> set (sources R). 0.3 \<le> relevance_score x))"
proof -
  have b: "(case query ascii_hangul (basic_request_of weighted_request) ok_runs hedging_answer [] 12 of
      Combined B \<Rightarrow> map relevance_score (sources B) | Individual x \<Rightarrow> []) = [0.9, 0.7, 0.5]"
    by code_simp
  have ev: "(case advanced_multi_source_query ascii_hangul weighted_request ok_runs
                 hedging_answer [] 12 of
              Inl e \<Rightarrow> [] | Inr R \<Rightarrow> map relevance_score (sources R)) = [0.54]"
    by code_simp
  then obtain R where
    r: "advanced_multi_source_query ascii_hangul weighted_request ok_runs hedging_answer [] 12
          = Inr R"
    and m: "map relevance_score (sources R) = [0.54]"
    by (cases "advanced_multi_source_query ascii_hangul weighted_request ok_runs
                 hedging_answer [] 12") simp_all
  have h2: "source_weights weighted_request
              = Some \<lparr> documents = 0.6, database = 0.3, web_search = 0.1 \<rparr>"
    by (simp add: weighted_request_def)
  have h3: "valid_weights \<lparr> documents = 0.6, database = 0.3, web_search = 0.1 \<rparr>"
    by (simp add: valid_weights_def unit_interval_def)
  have h4: "unit_interval (min_relevance_threshold weighted_request)"
    by (simp add: weighted_request_def unit_interval_def)
  have h5: "\<forall>i. valid_run (ok_runs i)"
    by (simp add: ok_runs_def valid_run_def ok_run_def document_row_def database_row_def
        web_result_row_def unit_interval_def get_or_def)
  have t: "min_relevance_threshold weighted_request = 0.3"
    by (simp add: weighted_request_def)
  from C5_weights_then_threshold [OF r h2 h3 h4 h5]
  have f: "\<forall>x \<in> set (sources R). 0.3 \<le> relevance_score x"
    unfolding t by blast
  have "\<exists>R. advanced_multi_source_query ascii_hangul weighted_request ok_runs hedging_answer [] 12
             = Inr R
          \<and> map relevance_score (sources R) = [0.54]
          \<and> (\<forall>x \<in> set (sources R). 0.3 \<le> relevance_score x)"
    using r m f by (intro exI [of _ R] conjI)
  with b show ?thesis by (rule conjI)
qed

end
